theory Spec2Isabelle
  imports
    Complex_Main
    "HOL-Library.AList"
    "HOL-Library.Char_ord"
    "HOL-Library.List_Lexorder"
    "HOL-Library.Product_Lexorder"
begin

section \<open>Python values\<close>

text \<open>
  Request bodies, pipeline elements and response bodies are the Python objects that
  \<^verbatim>\<open>json.loads\<close> / \<^verbatim>\<open>request.get_json\<close> produce: \<^verbatim>\<open>None\<close>, booleans, ints, floats,
  strings, lists and dicts. A dict is an association list in insertion order; a lookup
  takes the first entry of a key. Floats are idealised as reals: rounding, NaN and
  infinities are outside this value model.
\<close>

datatype json =
    JNull
  | JBool bool
  | JInt int
  | JFloat real
  | JStr string
  | JArr "json list"
  | JObj "(string \<times> json) list"

datatype exn = AttributeError | KeyError | TypeError | ValueError | RequestException

text \<open>Truthiness, as \<^verbatim>\<open>not data\<close> and \<^verbatim>\<open>if x:\<close> test it.\<close>

fun truthy :: "json \<Rightarrow> bool" where
  "truthy JNull = False"
| "truthy (JBool b) = b"
| "truthy (JInt i) = (i \<noteq> 0)"
| "truthy (JFloat r) = (r \<noteq> 0)"
| "truthy (JStr s) = (s \<noteq> [])"
| "truthy (JArr xs) = (xs \<noteq> [])"
| "truthy (JObj kvs) = (kvs \<noteq> [])"

text \<open>\<^verbatim>\<open>d.get(k, default)\<close>: only a dict has the method.\<close>

fun dict_get :: "json \<Rightarrow> string \<Rightarrow> json \<Rightarrow> exn + json" where
  "dict_get (JObj kvs) k d = Inr (case map_of kvs k of None \<Rightarrow> d | Some v \<Rightarrow> v)"
| "dict_get _ k d = Inl AttributeError"

text \<open>\<^verbatim>\<open>d[k]\<close> with a string key: KeyError on a dict without the key, TypeError on
  anything that is not a dict.\<close>

fun getitem :: "json \<Rightarrow> string \<Rightarrow> exn + json" where
  "getitem (JObj kvs) k = (case map_of kvs k of None \<Rightarrow> Inl KeyError | Some v \<Rightarrow> Inr v)"
| "getitem _ k = Inl TypeError"

text \<open>\<^verbatim>\<open>d[k] = v\<close>: replaces the value in place or appends the key.\<close>

fun setitem :: "json \<Rightarrow> string \<Rightarrow> json \<Rightarrow> exn + json" where
  "setitem (JObj kvs) k v = Inr (JObj (AList.update k v kvs))"
| "setitem _ k v = Inl TypeError"

section \<open>Scoring service (ml-server/server.py)\<close>

text \<open>
  A \<^verbatim>\<open>datetime\<close> is an instant on the local calendar, in microseconds since
  1970-01-01T00:00:00 (a Thursday; \<^verbatim>\<open>dayofweek\<close> counts Monday as 0).
\<close>

type_synonym datetime = int

definition dt_hour :: "datetime \<Rightarrow> int" where
  "dt_hour t = (t div 3600000000) mod 24"

definition dt_dayofweek :: "datetime \<Rightarrow> int" where
  "dt_dayofweek t = (t div 86400000000 + 3) mod 7"

text \<open>
  Library functions the handlers call, taken as parameters:
  \<^verbatim>\<open>pd.to_datetime\<close> on a payload value (\<open>None\<close> when it raises or returns an object
  without \<^verbatim>\<open>hour\<close>, as it does for \<^verbatim>\<open>None\<close>), and \<^verbatim>\<open>datetime.isoformat\<close>.
\<close>

record pylib =
  pd_to_datetime :: "json \<Rightarrow> datetime option"
  isoformat :: "datetime \<Rightarrow> string"

text \<open>
  The fitted artifacts are read-only objects whose methods are pure functions of their
  argument; each may raise (\<open>None\<close>). \<open>transform\<close> stands for
  \<^verbatim>\<open>scaler.transform(np.array([[...]]))\<close> on a row of Python values, \<open>'v\<close> for the
  scaled array.
\<close>

record 'v scaler =
  transform :: "json list \<Rightarrow> 'v option"

record 'v model =
  decision_function :: "'v \<Rightarrow> real option"
  predict :: "'v \<Rightarrow> int option"

text \<open>The four module globals; \<open>None\<close> until \<^verbatim>\<open>load_models\<close> has assigned them.\<close>

record 'v artifacts =
  temp_model :: "'v model option"
  temp_scaler :: "'v scaler option"
  vibration_model :: "'v model option"
  vibration_scaler :: "'v scaler option"

text \<open>The two readings of \<^verbatim>\<open>datetime.now()\<close> during one call of the handler: the default
  argument in \<^verbatim>\<open>prepare_features\<close> and the default timestamp of the result.\<close>

record clock =
  now_features :: datetime
  now_result :: datetime

record features =
  temperature :: json
  vibration :: json
  hour :: json
  day_of_week :: json
  temp_ma :: json
  vibration_ma :: json
  temp_zscore :: json
  vibration_zscore :: json

text \<open>\<^verbatim>\<open>prepare_features(data)\<close>: \<open>None\<close> is the \<^verbatim>\<open>return None\<close> of its exception handler.\<close>

definition server_prepare_features :: "pylib \<Rightarrow> datetime \<Rightarrow> json \<Rightarrow> features option" where
  "server_prepare_features lib now data =
     (case data of
        JObj kvs \<Rightarrow>
          (case (case map_of kvs ''timestamp'' of
                   None \<Rightarrow> Some now
                 | Some v \<Rightarrow> pd_to_datetime lib v) of
             None \<Rightarrow> None
           | Some ts \<Rightarrow>
               (let t = (case map_of kvs ''temperature'' of None \<Rightarrow> JInt 0 | Some v \<Rightarrow> v);
                    vb = (case map_of kvs ''vibration'' of None \<Rightarrow> JInt 0 | Some v \<Rightarrow> v)
                in Some \<lparr> temperature = t, vibration = vb,
                          hour = JInt (dt_hour ts), day_of_week = JInt (dt_dayofweek ts),
                          temp_ma = t, vibration_ma = vb,
                          temp_zscore = JInt 0, vibration_zscore = JInt 0 \<rparr>))
      | _ \<Rightarrow> None)"

text \<open>Prometheus instruments: counters by value, histograms by their number of
  observations, \<^verbatim>\<open>http_requests_total\<close> by its (method, endpoint, status) labels.\<close>

record metrics =
  ml_predictions_total :: nat
  ml_predictions_success_total :: nat
  ml_anomalies_detected_total :: nat
  ml_temperature_anomalies_total :: nat
  ml_vibration_anomalies_total :: nat
  ml_prediction_duration :: nat
  http_requests_total :: "string \<times> string \<times> string \<Rightarrow> nat"
  http_request_duration :: nat

definition inc_http :: "string \<Rightarrow> metrics \<Rightarrow> metrics" where
  "inc_http status m =
     m\<lparr>http_requests_total :=
         (http_requests_total m)((''POST'', ''/detect'', status) :=
            Suc (http_requests_total m (''POST'', ''/detect'', status)))\<rparr>"

datatype response = Response (status_code: int) (body: json)

definition error_body :: "string \<Rightarrow> json" where
  "error_body msg = JObj [(''error'', JStr msg)]"

text \<open>One detector: the scaler's transform, then the model's score and vote.
  \<open>None\<close> is an exception leaving the \<^verbatim>\<open>with\<close> block (an attribute access on a global
  that is still \<^verbatim>\<open>None\<close> included).\<close>

definition score_signal ::
  "'v scaler option \<Rightarrow> 'v model option \<Rightarrow> json list \<Rightarrow> (real \<times> bool) option" where
  "score_signal sc md X =
     (case sc of None \<Rightarrow> None | Some s \<Rightarrow>
      (case transform s X of None \<Rightarrow> None | Some Xs \<Rightarrow>
       (case md of None \<Rightarrow> None | Some mo \<Rightarrow>
        (case decision_function mo Xs of None \<Rightarrow> None | Some a \<Rightarrow>
         (case predict mo Xs of None \<Rightarrow> None | Some p \<Rightarrow> Some (a, p = - 1))))))"

definition temp_row :: "features \<Rightarrow> json list" where
  "temp_row f = [temperature f, hour f, day_of_week f, temp_ma f, temp_zscore f]"

definition vibration_row :: "features \<Rightarrow> json list" where
  "vibration_row f = [vibration f, hour f, day_of_week f, vibration_ma f, vibration_zscore f]"

definition update_anomaly_metrics :: "bool \<Rightarrow> bool \<Rightarrow> metrics \<Rightarrow> metrics" where
  "update_anomaly_metrics is_temp is_vib m =
     (let m1 = (if is_temp \<or> is_vib
                then m\<lparr>ml_anomalies_detected_total := Suc (ml_anomalies_detected_total m)\<rparr>
                else m);
          m2 = (if is_temp
                then m1\<lparr>ml_temperature_anomalies_total := Suc (ml_temperature_anomalies_total m1)\<rparr>
                else m1)
      in (if is_vib
          then m2\<lparr>ml_vibration_anomalies_total := Suc (ml_vibration_anomalies_total m2)\<rparr>
          else m2))"

text \<open>
  The body of the \<^verbatim>\<open>try\<close> block of \<^verbatim>\<open>detect_anomalies\<close>. The request is the outcome of
  \<^verbatim>\<open>request.get_json()\<close>: it raises (\<open>Inl\<close>) or returns the parsed body, \<^verbatim>\<open>None\<close>
  (\<open>JNull\<close>) when there is none. The result is the response returned, or \<open>None\<close> when an
  exception reaches the handler, with the instruments as they stand at that point.
\<close>

definition detect_try ::
  "pylib \<Rightarrow> 'v artifacts \<Rightarrow> clock \<Rightarrow> exn + json \<Rightarrow> metrics \<Rightarrow> response option \<times> metrics" where
  "detect_try lib arts clk req m0 =
     (if temp_model arts = None \<or> vibration_model arts = None
      then (Some (Response 500 (error_body ''Models not loaded'')), m0)
      else
        (let m1 = m0\<lparr>ml_predictions_total := Suc (ml_predictions_total m0)\<rparr> in
         case req of
           Inl e \<Rightarrow> (None, m1)
         | Inr data \<Rightarrow>
             if \<not> truthy data
             then (Some (Response 400 (error_body ''No data provided'')), inc_http ''400'' m1)
             else
               (let m2 = m1\<lparr>ml_prediction_duration := Suc (ml_prediction_duration m1)\<rparr> in
                case server_prepare_features lib (now_features clk) data of
                  None \<Rightarrow>
                    (Some (Response 500 (error_body ''Failed to prepare features'')),
                     inc_http ''500'' m2)
                | Some f \<Rightarrow>
                    (case score_signal (temp_scaler arts) (temp_model arts) (temp_row f) of
                       None \<Rightarrow> (None, m2)
                     | Some (temp_anomaly_score, is_temp_anomaly) \<Rightarrow>
                    (case score_signal (vibration_scaler arts) (vibration_model arts)
                            (vibration_row f) of
                       None \<Rightarrow> (None, m2)
                     | Some (vibration_anomaly_score, is_vibration_anomaly) \<Rightarrow>
                    (let m3 = update_anomaly_metrics is_temp_anomaly is_vibration_anomaly m2 in
                     case dict_get data ''device_id'' (JStr ''unknown'') of
                       Inl e \<Rightarrow> (None, m3)
                     | Inr dev \<Rightarrow>
                    (case dict_get data ''timestamp'' (JStr (isoformat lib (now_result clk))) of
                       Inl e \<Rightarrow> (None, m3)
                     | Inr ts \<Rightarrow>
                    (let result = JObj
                           [(''device_id'', dev),
                            (''timestamp'', ts),
                            (''temperature'', temperature f),
                            (''vibration'', vibration f),
                            (''temp_anomaly_score'', JFloat temp_anomaly_score),
                            (''vibration_anomaly_score'', JFloat vibration_anomaly_score),
                            (''is_temp_anomaly'', JBool is_temp_anomaly),
                            (''is_vibration_anomaly'', JBool is_vibration_anomaly),
                            (''is_anomaly'', JBool (is_temp_anomaly \<or> is_vibration_anomaly))];
                         m4 = m3\<lparr>ml_predictions_success_total :=
                                   Suc (ml_predictions_success_total m3)\<rparr>
                     in (Some (Response 200 result), inc_http ''200'' m4)))))))))"

text \<open>\<^verbatim>\<open>detect_anomalies\<close>: the \<^verbatim>\<open>try\<close> block, its \<^verbatim>\<open>except Exception\<close> handler and its
  \<^verbatim>\<open>finally\<close> clause.\<close>

definition detect_anomalies ::
  "pylib \<Rightarrow> 'v artifacts \<Rightarrow> clock \<Rightarrow> exn + json \<Rightarrow> metrics \<Rightarrow> response \<times> metrics" where
  "detect_anomalies lib arts clk req m0 =
     (let (r, m) = detect_try lib arts clk req m0;
          (resp, m') = (case r of
                          Some resp \<Rightarrow> (resp, m)
                        | None \<Rightarrow> (Response 500 (error_body ''Internal server error''),
                                   inc_http ''500'' m))
      in (resp, m'\<lparr>http_request_duration := Suc (http_request_duration m')\<rparr>))"

text \<open>Stand-ins for the library functions and the pickled artifacts, used to evaluate the
  handler on concrete requests: integers as epoch nanoseconds for \<^verbatim>\<open>pd.to_datetime\<close>, an
  identity scaler, and a model that scores a row by its hour and votes "anomaly" before
  six o'clock.\<close>

definition stub_lib :: pylib where
  "stub_lib = \<lparr> pd_to_datetime = (\<lambda>v. case v of JInt n \<Rightarrow> Some (n div 1000) | _ \<Rightarrow> None),
                isoformat = (\<lambda>t. ''now'') \<rparr>"

definition example_scaler :: "json list scaler" where
  "example_scaler = \<lparr> transform = Some \<rparr>"

definition example_model :: "json list model" where
  "example_model =
     \<lparr> decision_function =
         (\<lambda>X. case X of [v, JInt h, d, ma, z] \<Rightarrow> Some (real_of_int h - 6) | _ \<Rightarrow> None),
       predict =
         (\<lambda>X. case X of [v, JInt h, d, ma, z] \<Rightarrow> Some (if h < 6 then - 1 else 1) | _ \<Rightarrow> None) \<rparr>"

definition example_artifacts :: "json list artifacts" where
  "example_artifacts =
     \<lparr> temp_model = Some example_model, temp_scaler = Some example_scaler,
       vibration_model = Some example_model, vibration_scaler = Some example_scaler \<rparr>"

definition no_artifacts :: "json list artifacts" where
  "no_artifacts =
     \<lparr> temp_model = None, temp_scaler = None, vibration_model = None, vibration_scaler = None \<rparr>"

definition zero_metrics :: metrics where
  "zero_metrics =
     \<lparr> ml_predictions_total = 0, ml_predictions_success_total = 0,
       ml_anomalies_detected_total = 0, ml_temperature_anomalies_total = 0,
       ml_vibration_anomalies_total = 0, ml_prediction_duration = 0,
       http_requests_total = (\<lambda>_. 0), http_request_duration = 0 \<rparr>"

definition example_payload :: json where
  "example_payload = JObj [(''temperature'', JFloat 22), (''vibration'', JFloat 1)]"

definition stamped_payload :: json where
  "stamped_payload =
     JObj [(''device_id'', JStr ''sensor_0001''), (''timestamp'', JInt 0),
           (''temperature'', JFloat 22), (''vibration'', JFloat 1)]"

definition clock_night :: clock where
  "clock_night = \<lparr> now_features = 3 * 3600000000, now_result = 3 * 3600000000 + 1 \<rparr>"

definition clock_noon :: clock where
  "clock_noon = \<lparr> now_features = 12 * 3600000000, now_result = 12 * 3600000000 + 1 \<rparr>"


section \<open>Streaming pipeline (dataflow/pipeline.py)\<close>

text \<open>
  A \<^verbatim>\<open>DoFn.process\<close> call of this pipeline yields exactly one value: an element on the
  main output, or \<^verbatim>\<open>TaggedOutput('errors', element)\<close>. Elements are mutated in place, so
  an element routed to the error output carries the assignments made before the
  exception.
\<close>

datatype ('m, 'e) tagged = Main 'm | Errors 'e

text \<open>\<^verbatim>\<open>element['sensor_data'][k]\<close> and \<^verbatim>\<open>element['sensor_data'][k] = v\<close>.\<close>

definition get_sensor_data :: "json \<Rightarrow> string \<Rightarrow> exn + json" where
  "get_sensor_data element k =
     (case getitem element ''sensor_data'' of
        Inl e \<Rightarrow> Inl e
      | Inr sd \<Rightarrow> getitem sd k)"

definition set_sensor_data :: "json \<Rightarrow> string \<Rightarrow> json \<Rightarrow> exn + json" where
  "set_sensor_data element k v =
     (case getitem element ''sensor_data'' of
        Inl e \<Rightarrow> Inl e
      | Inr sd \<Rightarrow>
          (case setitem sd k v of
             Inl e \<Rightarrow> Inl e
           | Inr sd' \<Rightarrow> setitem element ''sensor_data'' sd'))"

text \<open>
  What the stages take from outside: \<^verbatim>\<open>json.loads\<close> (\<open>None\<close> when it raises), the
  string \<^verbatim>\<open>datetime.now().isoformat()\<close>, the two HTTP endpoints, and \<^verbatim>\<open>str\<close> as the
  f-string of the alert message applies it.
\<close>

datatype http_outcome =
    RequestFailed
  | Responded int "exn + json"

text \<open>\<open>RequestFailed\<close>: \<^verbatim>\<open>requests.post\<close> raised a \<^verbatim>\<open>RequestException\<close> (timeout,
  connection error). \<open>Responded code body\<close>: a response with that status code, \<open>body\<close>
  being what \<^verbatim>\<open>response.json()\<close> returns or raises.\<close>

record penv =
  json_loads :: "string \<Rightarrow> json option"
  now_iso :: string
  post_detect :: "json \<Rightarrow> http_outcome"
  post_alert :: "json \<Rightarrow> http_outcome"
  str_of :: "json \<Rightarrow> string"

definition ParseMessage :: "penv \<Rightarrow> string \<Rightarrow> (json, string) tagged" where
  "ParseMessage env element =
     (case json_loads env element of
        None \<Rightarrow> Errors element
      | Some message \<Rightarrow>
          (case setitem message ''processed_at'' (JStr (now_iso env)) of
             Inl e \<Rightarrow> Errors element
           | Inr message' \<Rightarrow> Main message'))"

definition PreprocessData :: "json \<Rightarrow> (json, json) tagged" where
  "PreprocessData element =
     (case get_sensor_data element ''temperature'' of Inl e \<Rightarrow> Errors element | Inr t \<Rightarrow>
      case set_sensor_data element ''temp_ma'' t of Inl e \<Rightarrow> Errors element | Inr e1 \<Rightarrow>
      case get_sensor_data e1 ''vibration'' of Inl e \<Rightarrow> Errors e1 | Inr vb \<Rightarrow>
      case set_sensor_data e1 ''vibration_ma'' vb of Inl e \<Rightarrow> Errors e1 | Inr e2 \<Rightarrow>
      case set_sensor_data e2 ''temp_zscore'' (JFloat 0) of Inl e \<Rightarrow> Errors e2 | Inr e3 \<Rightarrow>
      case set_sensor_data e3 ''vibration_zscore'' (JFloat 0) of Inl e \<Rightarrow> Errors e3 | Inr e4 \<Rightarrow>
      Main e4)"

text \<open>The request body \<^verbatim>\<open>ml_data\<close> of the Score stage; a missing key raises before any
  call is made.\<close>

definition ml_request :: "json \<Rightarrow> exn + json" where
  "ml_request element =
     (case getitem element ''device_id'' of Inl e \<Rightarrow> Inl e | Inr dev \<Rightarrow>
      case getitem element ''timestamp'' of Inl e \<Rightarrow> Inl e | Inr ts \<Rightarrow>
      case get_sensor_data element ''temperature'' of Inl e \<Rightarrow> Inl e | Inr t \<Rightarrow>
      case get_sensor_data element ''vibration'' of Inl e \<Rightarrow> Inl e | Inr vb \<Rightarrow>
      Inr (JObj [(''device_id'', dev), (''timestamp'', ts),
                 (''temperature'', t), (''vibration'', vb)]))"

text \<open>The three assignments of the 200 branch.\<close>

definition apply_ml_result :: "json \<Rightarrow> json \<Rightarrow> (json, json) tagged" where
  "apply_ml_result element result =
     (case dict_get result ''is_anomaly'' (JBool False) of Inl e \<Rightarrow> Errors element | Inr a \<Rightarrow>
      case setitem element ''is_anomaly'' a of Inl e \<Rightarrow> Errors element | Inr e1 \<Rightarrow>
      case dict_get result ''temp_anomaly_score'' (JFloat 0) of Inl e \<Rightarrow> Errors e1 | Inr ts \<Rightarrow>
      case set_sensor_data e1 ''temp_anomaly_score'' ts of Inl e \<Rightarrow> Errors e1 | Inr e2 \<Rightarrow>
      case dict_get result ''vibration_anomaly_score'' (JFloat 0) of Inl e \<Rightarrow> Errors e2 | Inr vs \<Rightarrow>
      case set_sensor_data e2 ''vibration_anomaly_score'' vs of Inl e \<Rightarrow> Errors e2 | Inr e3 \<Rightarrow>
      Main e3)"

text \<open>The inner handler catches \<^verbatim>\<open>RequestException\<close> only; any other exception reaches
  the outer handler and routes the element to the error output.\<close>

definition DetectAnomaliesWithML :: "(json \<Rightarrow> http_outcome) \<Rightarrow> json \<Rightarrow> (json, json) tagged" where
  "DetectAnomaliesWithML post element =
     (case ml_request element of
        Inl e \<Rightarrow> Errors element
      | Inr ml_data \<Rightarrow>
          (case post ml_data of
             RequestFailed \<Rightarrow> Main element
           | Responded code response_json \<Rightarrow>
               if code = 200
               then (case response_json of
                       Inl e \<Rightarrow> if e = RequestException then Main element else Errors element
                     | Inr result \<Rightarrow> apply_ml_result element result)
               else Main element))"

definition alert_data :: "penv \<Rightarrow> json \<Rightarrow> exn + json" where
  "alert_data env element =
     (case getitem element ''device_id'' of Inl e \<Rightarrow> Inl e | Inr dev \<Rightarrow>
      case getitem element ''timestamp'' of Inl e \<Rightarrow> Inl e | Inr ts \<Rightarrow>
      case get_sensor_data element ''temperature'' of Inl e \<Rightarrow> Inl e | Inr t \<Rightarrow>
      case get_sensor_data element ''vibration'' of Inl e \<Rightarrow> Inl e | Inr vb \<Rightarrow>
      case getitem element ''sensor_data'' of Inl e \<Rightarrow> Inl e | Inr sd \<Rightarrow>
      (let alert = [(''device_id'', dev), (''timestamp'', ts),
                    (''alert_type'', JStr ''anomaly_detected''),
                    (''severity'', JStr ''high''),
                    (''message'', JStr (''Anomaly detected for device '' @ str_of env dev)),
                    (''temperature'', t), (''vibration'', vb)]
       in case sd of
            JObj kvs \<Rightarrow>
              (case map_of kvs ''anomaly_type'' of
                 None \<Rightarrow> Inr (JObj alert)
               | Some ty \<Rightarrow> Inr (JObj (alert @ [(''anomaly_type'', ty)])))
          | _ \<Rightarrow> Inl TypeError))"

text \<open>The stage's output together with the alerts it posted. The outcome of the post is
  only printed.\<close>

definition SendAlerts :: "penv \<Rightarrow> json \<Rightarrow> (json, json) tagged \<times> json list" where
  "SendAlerts env element =
     (case dict_get element ''is_anomaly'' (JBool False) of
        Inl e \<Rightarrow> (Errors element, [])
      | Inr a \<Rightarrow>
          if truthy a
          then (case alert_data env element of
                  Inl e \<Rightarrow> (Errors element, [])
                | Inr alert \<Rightarrow> (Main element, [alert]))
          else (Main element, []))"

text \<open>Sequencing of steps that may raise: the first exception ends the block.\<close>

definition and_then :: "exn + 'a \<Rightarrow> ('a \<Rightarrow> exn + 'b) \<Rightarrow> exn + 'b" where
  "and_then r f = (case r of Inl e \<Rightarrow> Inl e | Inr x \<Rightarrow> f x)"

text \<open>The row \<^verbatim>\<open>bq_row\<close> of \<^verbatim>\<open>FormatForBigQuery\<close>, keys in the order of insertion. The
  membership test \<^verbatim>\<open>'anomaly_type' in element['sensor_data']\<close> is reached only when
  \<^verbatim>\<open>element['sensor_data']\<close> is a dict, where it holds exactly when the subscript
  succeeds.\<close>

definition bq_row :: "json \<Rightarrow> exn + json" where
  "bq_row element =
     and_then (getitem element ''device_id'') (\<lambda>dev.
     and_then (getitem element ''timestamp'') (\<lambda>ts.
     and_then (getitem element ''processed_at'') (\<lambda>pa.
     and_then (getitem element ''location'') (\<lambda>loc.
     and_then (getitem loc ''building'') (\<lambda>building.
     and_then (getitem loc ''floor'') (\<lambda>floor.
     and_then (getitem loc ''room'') (\<lambda>room.
     and_then (getitem element ''device_type'') (\<lambda>dty.
     and_then (get_sensor_data element ''temperature'') (\<lambda>t.
     and_then (get_sensor_data element ''vibration'') (\<lambda>vb.
     and_then (getitem element ''is_anomaly'') (\<lambda>a.
     and_then (getitem element ''sensor_data'') (\<lambda>sd.
     and_then (dict_get sd ''temp_anomaly_score'' (JFloat 0)) (\<lambda>tsc.
     and_then (dict_get sd ''vibration_anomaly_score'' (JFloat 0)) (\<lambda>vsc.
     and_then (dict_get sd ''temp_ma'' (JFloat 0)) (\<lambda>tma.
     and_then (dict_get sd ''vibration_ma'' (JFloat 0)) (\<lambda>vma.
     and_then (dict_get sd ''temp_zscore'' (JFloat 0)) (\<lambda>tz.
     and_then (dict_get sd ''vibration_zscore'' (JFloat 0)) (\<lambda>vz.
       Inr (JObj
        ([(''device_id'', dev), (''timestamp'', ts), (''processed_at'', pa),
          (''building'', building), (''floor'', floor), (''room'', room),
          (''device_type'', dty), (''temperature'', t), (''vibration'', vb),
          (''is_anomaly'', a),
          (''temp_anomaly_score'', tsc), (''vibration_anomaly_score'', vsc)]
         @ (case getitem sd ''anomaly_type'' of
              Inr ty \<Rightarrow> [(''anomaly_type'', ty)]
            | Inl e \<Rightarrow> [])
         @ [(''temp_ma'', tma), (''vibration_ma'', vma),
            (''temp_zscore'', tz), (''vibration_zscore'', vz)]))))))))))))))))))))"

text \<open>The stage does not assign to the element, so the error output carries it as it
  came in.\<close>

definition FormatForBigQuery :: "json \<Rightarrow> (json, json) tagged" where
  "FormatForBigQuery element =
     (case bq_row element of
        Inl e \<Rightarrow> Errors element
      | Inr row \<Rightarrow> Main row)"

fun main_output :: "('m, 'e) tagged list \<Rightarrow> 'm list" where
  "main_output [] = []"
| "main_output (Main m # xs) = m # main_output xs"
| "main_output (Errors e # xs) = main_output xs"

fun error_output :: "('m, 'e) tagged list \<Rightarrow> 'e list" where
  "error_output [] = []"
| "error_output (Main m # xs) = error_output xs"
| "error_output (Errors e # xs) = e # error_output xs"

text \<open>
  The graph \<^verbatim>\<open>run_pipeline\<close> declares, on a batch of messages read from the subscription.
  Four transforms are applied \<^verbatim>\<open>.with_outputs('errors', main=...)\<close> and their error
  outputs are flattened and printed; \<^verbatim>\<open>FormatForBigQuery\<close> is applied without
  \<^verbatim>\<open>with_outputs\<close>, so only its main output is a collection: that is what goes to the
  sink, and its tagged error output is consumed by nothing. (In the source everything
  after the Parse transform is indented outside the \<^verbatim>\<open>with beam.Pipeline\<close> block.)
  The flattened errors are given in one order; Flatten promises none.
\<close>

datatype diagnostic = Raw string | Element json

record pipeline_result =
  bq_rows :: "json list"
  errors :: "diagnostic list"
  alerts :: "json list"

definition run_pipeline :: "penv \<Rightarrow> string list \<Rightarrow> pipeline_result" where
  "run_pipeline env msgs =
     (let messages = map (ParseMessage env) msgs;
          preprocessed_messages = map PreprocessData (main_output messages);
          ml_detected_messages =
            map (DetectAnomaliesWithML (post_detect env)) (main_output preprocessed_messages);
          alert_results = map (SendAlerts env) (main_output ml_detected_messages);
          alert_messages = map fst alert_results;
          formatted = map FormatForBigQuery (main_output alert_messages)
      in \<lparr> bq_rows = main_output formatted,
           errors = map Raw (error_output messages)
                    @ map Element (error_output preprocessed_messages)
                    @ map Element (error_output ml_detected_messages)
                    @ map Element (error_output alert_messages),
           alerts = concat (map snd alert_results) \<rparr>)"

text \<open>The premise "the call to the scoring service fails": the post raised a
  \<^verbatim>\<open>RequestException\<close>, or a response came back with a status other than 200.\<close>

definition ml_call_failed :: "http_outcome \<Rightarrow> bool" where
  "ml_call_failed r = (case r of RequestFailed \<Rightarrow> True | Responded code b \<Rightarrow> code \<noteq> 200)"

text \<open>A message of the shape the simulator publishes, the same message without its
  location, and an environment in which both endpoints are unreachable.\<close>

definition example_element :: json where
  "example_element =
     JObj [(''device_id'', JStr ''sensor_0001''),
           (''timestamp'', JStr ''2024-01-01T00:00:00''),
           (''location'', JObj [(''building'', JStr ''Building_A''), (''floor'', JInt 3),
                                (''room'', JStr ''Room_305'')]),
           (''device_type'', JStr ''industrial_sensor''),
           (''sensor_data'', JObj [(''temperature'', JFloat 23.5), (''vibration'', JFloat 1.2)]),
           (''is_anomaly'', JBool False)]"

definition no_location_element :: json where
  "no_location_element =
     JObj [(''device_id'', JStr ''sensor_0002''),
           (''timestamp'', JStr ''2024-01-01T00:00:00''),
           (''device_type'', JStr ''industrial_sensor''),
           (''sensor_data'', JObj [(''temperature'', JFloat 23.5), (''vibration'', JFloat 1.2)]),
           (''is_anomaly'', JBool False)]"

definition outage_env :: penv where
  "outage_env =
     \<lparr> json_loads = (\<lambda>s. if s = ''m1'' then Some example_element
                          else if s = ''m2'' then Some no_location_element
                          else None),
       now_iso = ''2024-01-01T00:00:01'',
       post_detect = (\<lambda>d. RequestFailed),
       post_alert = (\<lambda>d. RequestFailed),
       str_of = (\<lambda>v. case v of JStr s \<Rightarrow> s | _ \<Rightarrow> ''?'') \<rparr>"

text \<open>The example message as \<^verbatim>\<open>ParseMessage\<close> hands it on.\<close>

definition parsed_element :: json where
  "parsed_element =
     JObj [(''device_id'', JStr ''sensor_0001''),
           (''timestamp'', JStr ''2024-01-01T00:00:00''),
           (''location'', JObj [(''building'', JStr ''Building_A''), (''floor'', JInt 3),
                                (''room'', JStr ''Room_305'')]),
           (''device_type'', JStr ''industrial_sensor''),
           (''sensor_data'', JObj [(''temperature'', JFloat 23.5), (''vibration'', JFloat 1.2)]),
           (''is_anomaly'', JBool False),
           (''processed_at'', JStr ''2024-01-01T00:00:01'')]"

section \<open>Training run (ml-trainer/trainer.py)\<close>

text \<open>
  The control flow of \<^verbatim>\<open>train_models\<close>, \<^verbatim>\<open>train_isolation_forest\<close> and
  \<^verbatim>\<open>evaluate_model\<close> over the outcomes of the operations they call: the BigQuery query,
  feature preparation, the split/fit/predict sequence of scikit-learn, and the three
  file writes per signal. A write that raises may already have created its file. The
  state of a run is the list of files it has written and its log.
\<close>

datatype fetch_outcome = QueryRaised | Rows nat

datatype write_outcome = Written | RaisedBeforeOpen | RaisedAfterOpen

record signal_env =
  fit_ok :: bool
  metrics_write :: write_outcome
  model_dump :: write_outcome
  scaler_dump :: write_outcome

record trainer_env =
  fetched :: fetch_outcome
  prepare_ok :: bool
  temperature_env :: signal_env
  vibration_env :: signal_env

datatype log_level = INFO | WARNING | ERROR

record run =
  files :: "string list"
  log :: "(log_level \<times> string) list"

definition logger :: "log_level \<Rightarrow> string \<Rightarrow> run \<Rightarrow> run" where
  "logger lvl msg r = r\<lparr>log := log r @ [(lvl, msg)]\<rparr>"

definition write_file :: "string \<Rightarrow> run \<Rightarrow> run" where
  "write_file path r = r\<lparr>files := files r @ [path]\<rparr>"

definition model_dir :: string where
  "model_dir = ''./ml-models''"

definition metrics_path :: "string \<Rightarrow> string" where
  "metrics_path model_name = model_dir @ ''/'' @ model_name @ ''_metrics.json''"

definition model_path :: "string \<Rightarrow> string" where
  "model_path model_name = model_dir @ ''/'' @ model_name @ ''_model.pkl''"

definition scaler_path :: "string \<Rightarrow> string" where
  "scaler_path model_name = model_dir @ ''/'' @ model_name @ ''_scaler.pkl''"

text \<open>\<^verbatim>\<open>evaluate_model\<close> has its own handler: whatever happens in it, the caller goes on.\<close>

definition evaluate_model :: "signal_env \<Rightarrow> string \<Rightarrow> run \<Rightarrow> run" where
  "evaluate_model env model_name r =
     (case metrics_write env of
        Written \<Rightarrow> write_file (metrics_path model_name) r
      | RaisedBeforeOpen \<Rightarrow> logger ERROR ''Error evaluating model'' r
      | RaisedAfterOpen \<Rightarrow>
          logger ERROR ''Error evaluating model'' (write_file (metrics_path model_name) r))"

text \<open>\<^verbatim>\<open>train_isolation_forest\<close>: split, scale, fit and predict; evaluate; dump the model;
  dump the scaler. The first exception outside \<^verbatim>\<open>evaluate_model\<close> ends it with an error
  in the log.\<close>

definition train_isolation_forest :: "signal_env \<Rightarrow> string \<Rightarrow> run \<Rightarrow> run" where
  "train_isolation_forest env model_name r =
     (if \<not> fit_ok env then logger ERROR ''Error training Isolation Forest model'' r
      else
        (let r1 = evaluate_model env model_name r in
         case model_dump env of
           RaisedBeforeOpen \<Rightarrow> logger ERROR ''Error training Isolation Forest model'' r1
         | RaisedAfterOpen \<Rightarrow>
             logger ERROR ''Error training Isolation Forest model''
               (write_file (model_path model_name) r1)
         | Written \<Rightarrow>
             (let r2 = write_file (model_path model_name) r1 in
              case scaler_dump env of
                RaisedBeforeOpen \<Rightarrow> logger ERROR ''Error training Isolation Forest model'' r2
              | RaisedAfterOpen \<Rightarrow>
                  logger ERROR ''Error training Isolation Forest model''
                    (write_file (scaler_path model_name) r2)
              | Written \<Rightarrow>
                  logger INFO ''Trained and saved model''
                    (write_file (scaler_path model_name) r2))))"

text \<open>\<^verbatim>\<open>train_models\<close>. The value returned by \<^verbatim>\<open>train_isolation_forest\<close> is not looked
  at. Every exception is caught inside, so the function returns in every case: the
  model is a total function to the state of the run.\<close>

definition train_models :: "trainer_env \<Rightarrow> run" where
  "train_models env =
     (let r0 = \<lparr> files = [], log = [] \<rparr> in
      case fetched env of
        QueryRaised \<Rightarrow>
          logger WARNING ''No training data available''
            (logger ERROR ''Error fetching training data'' r0)
      | Rows n \<Rightarrow>
          (let r1 = logger INFO ''Fetched records for training'' r0 in
           if n = 0 then logger WARNING ''No training data available'' r1
           else if \<not> prepare_ok env
           then logger ERROR ''Failed to prepare features''
                  (logger ERROR ''Error preparing features'' r1)
           else
             (let r2 = train_isolation_forest (temperature_env env) ''temperature'' r1;
                  r3 = train_isolation_forest (vibration_env env) ''vibration'' r2
              in logger INFO ''All models trained successfully'' r3)))"

definition artifact_files :: "string \<Rightarrow> string list" where
  "artifact_files model_name =
     [metrics_path model_name, model_path model_name, scaler_path model_name]"

definition reported :: "run \<Rightarrow> bool" where
  "reported r = list_ex (\<lambda>entry. fst entry \<noteq> INFO) (log r)"

definition healthy_signal :: signal_env where
  "healthy_signal =
     \<lparr> fit_ok = True, metrics_write = Written, model_dump = Written, scaler_dump = Written \<rparr>"

definition failing_fit :: signal_env where
  "failing_fit =
     \<lparr> fit_ok = False, metrics_write = Written, model_dump = Written, scaler_dump = Written \<rparr>"

definition vibration_fit_fails :: trainer_env where
  "vibration_fit_fails =
     \<lparr> fetched = Rows 100, prepare_ok = True,
       temperature_env = healthy_signal, vibration_env = failing_fit \<rparr>"

definition no_data :: trainer_env where
  "no_data =
     \<lparr> fetched = Rows 0, prepare_ok = True,
       temperature_env = healthy_signal, vibration_env = healthy_signal \<rparr>"

(*PROPERTIES*)

section \<open>Properties of the scoring service\<close>

lemmas example_defs =
  stub_lib_def example_scaler_def example_model_def example_artifacts_def
  no_artifacts_def zero_metrics_def example_payload_def stamped_payload_def
  clock_night_def clock_noon_def
  detect_anomalies_def detect_try_def server_prepare_features_def score_signal_def
  temp_row_def vibration_row_def update_anomaly_metrics_def inc_http_def error_body_def
  dt_hour_def dt_dayofweek_def Let_def

lemma example_night_response:
  "fst (detect_anomalies stub_lib example_artifacts clock_night (Inr example_payload) zero_metrics)
   = Response 200 (JObj [(''device_id'', JStr ''unknown''), (''timestamp'', JStr ''now''),
        (''temperature'', JFloat 22), (''vibration'', JFloat 1),
        (''temp_anomaly_score'', JFloat (- 3)), (''vibration_anomaly_score'', JFloat (- 3)),
        (''is_temp_anomaly'', JBool True), (''is_vibration_anomaly'', JBool True),
        (''is_anomaly'', JBool True)])"
  by (simp add: example_defs)

lemma example_noon_response:
  "fst (detect_anomalies stub_lib example_artifacts clock_noon (Inr example_payload) zero_metrics)
   = Response 200 (JObj [(''device_id'', JStr ''unknown''), (''timestamp'', JStr ''now''),
        (''temperature'', JFloat 22), (''vibration'', JFloat 1),
        (''temp_anomaly_score'', JFloat 6), (''vibration_anomaly_score'', JFloat 6),
        (''is_temp_anomaly'', JBool False), (''is_vibration_anomaly'', JBool False),
        (''is_anomaly'', JBool False)])"
  by (simp add: example_defs)

lemma example_noon_metrics:
  "ml_predictions_total
     (snd (detect_anomalies stub_lib example_artifacts clock_noon (Inr example_payload) zero_metrics)) = 1"
  "ml_predictions_success_total
     (snd (detect_anomalies stub_lib example_artifacts clock_noon (Inr example_payload) zero_metrics)) = 1"
  by (simp_all add: example_defs)

subsection \<open>Counters\<close>

lemma counters_update_anomaly_metrics [simp]:
  "ml_predictions_success_total (update_anomaly_metrics a b m) = ml_predictions_success_total m"
  "ml_predictions_total (update_anomaly_metrics a b m) = ml_predictions_total m"
  by (simp_all add: update_anomaly_metrics_def Let_def)

lemma counters_inc_http [simp]:
  "ml_predictions_success_total (inc_http s m) = ml_predictions_success_total m"
  "ml_predictions_total (inc_http s m) = ml_predictions_total m"
  by (simp_all add: inc_http_def)

lemma detect_try_success:
  "ml_predictions_success_total (snd (detect_try lib arts clk req m)) =
     ml_predictions_success_total m +
       (case fst (detect_try lib arts clk req m) of
          Some resp \<Rightarrow> if status_code resp = 200 then 1 else 0
        | None \<Rightarrow> 0)"
  by (simp add: detect_try_def Let_def split: option.split sum.split prod.split)

lemma detect_try_total:
  "ml_predictions_total (snd (detect_try lib arts clk req m)) =
     ml_predictions_total m +
       (if temp_model arts = None \<or> vibration_model arts = None then 0 else 1)"
  by (simp add: detect_try_def Let_def split: option.split sum.split prod.split)

lemma detect_try_200_loaded:
  "fst (detect_try lib arts clk req m) = Some resp \<Longrightarrow> status_code resp = 200 \<Longrightarrow>
     temp_model arts \<noteq> None \<and> vibration_model arts \<noteq> None"
  by (cases "temp_model arts = None \<or> vibration_model arts = None")
     (auto simp: detect_try_def)

text \<open>
  C10. Whatever path a call of the combined handler takes, the success counter grows by one
  exactly when the response is 200 and by nothing otherwise; the total counter grows at
  least as much in the same call; so \<open>ml_predictions_success_total \<le> ml_predictions_total\<close>
  is preserved by every call.
\<close>

theorem C10_success_counter_bounded:
  "(case detect_anomalies lib arts clk req m of (resp, m') \<Rightarrow>
      ml_predictions_success_total m' =
        ml_predictions_success_total m + (if status_code resp = 200 then 1 else 0)
      \<and> ml_predictions_success_total m' - ml_predictions_success_total m
          \<le> ml_predictions_total m' - ml_predictions_total m
      \<and> (ml_predictions_success_total m \<le> ml_predictions_total m
           \<longrightarrow> ml_predictions_success_total m' \<le> ml_predictions_total m'))"
proof -
  obtain r m1 where tr: "detect_try lib arts clk req m = (r, m1)"
    by (cases "detect_try lib arts clk req m")
  have s: "ml_predictions_success_total m1 =
             ml_predictions_success_total m +
               (case r of Some resp \<Rightarrow> if status_code resp = 200 then 1 else 0 | None \<Rightarrow> 0)"
    using detect_try_success [of lib arts clk req m] tr by simp
  have t: "ml_predictions_total m1 =
             ml_predictions_total m +
               (if temp_model arts = None \<or> vibration_model arts = None then 0 else 1)"
    using detect_try_total [of lib arts clk req m] tr by simp
  show ?thesis
  proof (cases r)
    case None
    then show ?thesis
      using tr s t by (simp add: detect_anomalies_def)
  next
    case (Some resp)
    have "status_code resp = 200 \<Longrightarrow> temp_model arts \<noteq> None \<and> vibration_model arts \<noteq> None"
      using detect_try_200_loaded [of lib arts clk req m resp] tr Some by simp
    then show ?thesis
      using tr s t Some by (auto simp: detect_anomalies_def)
  qed
qed

theorem C10_witness:
  "ml_predictions_success_total zero_metrics \<le> ml_predictions_total zero_metrics
   \<and> ml_predictions_success_total
        (snd (detect_anomalies stub_lib example_artifacts clock_noon (Inr example_payload)
               zero_metrics)) = 1
   \<and> ml_predictions_success_total
        (snd (detect_anomalies stub_lib example_artifacts clock_noon (Inr example_payload)
               zero_metrics))
      \<le> ml_predictions_total
          (snd (detect_anomalies stub_lib example_artifacts clock_noon (Inr example_payload)
                 zero_metrics))"
  using C10_success_counter_bounded
          [where lib = stub_lib and arts = example_artifacts and clk = clock_noon
             and req = "Inr example_payload" and m = zero_metrics]
        example_noon_response
  by (simp add: zero_metrics_def split: prod.splits)

subsection \<open>The aggregate flag\<close>

text \<open>
  C1. Whenever the combined detection endpoint answers 200, the \<open>is_anomaly\<close> field of the
  body is the disjunction of its \<open>is_temp_anomaly\<close> and \<open>is_vibration_anomaly\<close> fields.
\<close>

theorem C1_is_anomaly_is_disjunction:
  assumes "fst (detect_anomalies lib arts clk req m) = Response 200 b"
  shows "\<exists>a c. getitem b ''is_temp_anomaly'' = Inr (JBool a) \<and>
               getitem b ''is_vibration_anomaly'' = Inr (JBool c) \<and>
               getitem b ''is_anomaly'' = Inr (JBool (a \<or> c))"
  using assms
  by (auto simp: detect_anomalies_def detect_try_def Let_def error_body_def
      split: if_splits option.splits sum.splits prod.splits)

theorem C1_witness:
  "status_code
     (fst (detect_anomalies stub_lib example_artifacts clock_night (Inr example_payload)
            zero_metrics)) = 200
   \<and> (\<exists>a c.
        getitem (body (fst (detect_anomalies stub_lib example_artifacts clock_night
                              (Inr example_payload) zero_metrics))) ''is_temp_anomaly''
          = Inr (JBool a) \<and>
        getitem (body (fst (detect_anomalies stub_lib example_artifacts clock_night
                              (Inr example_payload) zero_metrics))) ''is_vibration_anomaly''
          = Inr (JBool c) \<and>
        getitem (body (fst (detect_anomalies stub_lib example_artifacts clock_night
                              (Inr example_payload) zero_metrics))) ''is_anomaly''
          = Inr (JBool (a \<or> c)))"
  using C1_is_anomaly_is_disjunction [OF example_night_response] example_night_response
  by simp

subsection \<open>Serving-mode features\<close>



subsection \<open>Status codes\<close>













subsection \<open>Repeated calls\<close>







section \<open>Properties of the streaming pipeline\<close>

lemmas pipeline_defs =
  run_pipeline_def ParseMessage_def PreprocessData_def DetectAnomaliesWithML_def
  ml_request_def SendAlerts_def alert_data_def FormatForBigQuery_def bq_row_def and_then_def
  get_sensor_data_def set_sensor_data_def outage_env_def example_element_def
  no_location_element_def parsed_element_def Let_def

lemma ml_request_InrD:
  assumes "ml_request element = Inr d"
  shows "\<exists>kvs skvs dev ts t vb.
           element = JObj kvs \<and> map_of kvs ''device_id'' = Some dev \<and>
           map_of kvs ''timestamp'' = Some ts \<and>
           map_of kvs ''sensor_data'' = Some (JObj skvs) \<and>
           map_of skvs ''temperature'' = Some t \<and> map_of skvs ''vibration'' = Some vb"
proof (cases element)
  case (JObj kvs)
  from assms JObj obtain sd where sd: "map_of kvs ''sensor_data'' = Some sd"
    by (auto simp: ml_request_def get_sensor_data_def split: option.splits sum.splits)
  show ?thesis
  proof (cases sd)
    case (JObj skvs)
    with assms \<open>element = JObj kvs\<close> sd show ?thesis
      by (auto simp: ml_request_def get_sensor_data_def split: option.splits sum.splits)
  qed (use assms \<open>element = JObj kvs\<close> sd in
        \<open>auto simp: ml_request_def get_sensor_data_def split: option.splits sum.splits\<close>)
qed (use assms in \<open>auto simp: ml_request_def\<close>)

lemma score_stage_passes_on_failure:
  assumes "ml_request element = Inr ml_data" and "ml_call_failed (post ml_data)"
  shows "DetectAnomaliesWithML post element = Main element"
  using assms
  by (auto simp: DetectAnomaliesWithML_def ml_call_failed_def split: http_outcome.splits)

lemma alert_stage_passes:
  assumes "ml_request element = Inr ml_data"
  shows "fst (SendAlerts env element) = Main element"
proof -
  from ml_request_InrD [OF assms] obtain kvs skvs dev ts t vb where
    e: "element = JObj kvs" "map_of kvs ''device_id'' = Some dev"
       "map_of kvs ''timestamp'' = Some ts" "map_of kvs ''sensor_data'' = Some (JObj skvs)"
       "map_of skvs ''temperature'' = Some t" "map_of skvs ''vibration'' = Some vb"
    by blast
  then show ?thesis
    by (simp add: SendAlerts_def alert_data_def get_sensor_data_def Let_def split: option.split)
qed

lemma and_then_Inr:
  "and_then r f = Inr y \<longleftrightarrow> (\<exists>x. r = Inr x \<and> f x = Inr y)"
  by (cases r) (auto simp: and_then_def)

lemma bq_row_scores:
  assumes "bq_row element = Inr row"
  shows "\<exists>sd tsc vsc. getitem element ''sensor_data'' = Inr sd
           \<and> dict_get sd ''temp_anomaly_score'' (JFloat 0) = Inr tsc
           \<and> dict_get sd ''vibration_anomaly_score'' (JFloat 0) = Inr vsc
           \<and> getitem row ''temp_anomaly_score'' = Inr tsc
           \<and> getitem row ''vibration_anomaly_score'' = Inr vsc"
  using assms unfolding bq_row_def and_then_Inr
  by (elim exE conjE) auto

lemma dict_get_default:
  assumes "getitem element ''sensor_data'' = Inr sd" and "dict_get sd k (JFloat 0) = Inr v"
  shows "v = (case get_sensor_data element k of Inr x \<Rightarrow> x | Inl e \<Rightarrow> JFloat 0)"
  using assms
  by (cases sd) (auto simp: get_sensor_data_def split: option.splits)

lemma format_stage_defaults:
  assumes "FormatForBigQuery element = Main row"
  shows "getitem row ''temp_anomaly_score'' =
           Inr (case get_sensor_data element ''temp_anomaly_score'' of
                  Inr x \<Rightarrow> x | Inl e \<Rightarrow> JFloat 0)
       \<and> getitem row ''vibration_anomaly_score'' =
           Inr (case get_sensor_data element ''vibration_anomaly_score'' of
                  Inr x \<Rightarrow> x | Inl e \<Rightarrow> JFloat 0)"
proof -
  from assms have "bq_row element = Inr row"
    by (auto simp: FormatForBigQuery_def split: sum.splits)
  from bq_row_scores [OF this] obtain sd tsc vsc where
    sd: "getitem element ''sensor_data'' = Inr sd"
    and t: "dict_get sd ''temp_anomaly_score'' (JFloat 0) = Inr tsc"
    and v: "dict_get sd ''vibration_anomaly_score'' (JFloat 0) = Inr vsc"
    and rt: "getitem row ''temp_anomaly_score'' = Inr tsc"
    and rv: "getitem row ''vibration_anomaly_score'' = Inr vsc"
    by blast
  show ?thesis
    using dict_get_default [OF sd t] dict_get_default [OF sd v] rt rv by simp
qed

text \<open>
  C4. When the Score stage has built its request and the call to the scoring service
  fails (the post raises a request exception, or the response has a status other than
  200), the stage yields the element on its main output as it came in; the Alert stage
  then yields the same element on its main output, so it is the input of the Format
  stage; and in any sink row Format produces for it, an anomaly score that the element's
  sensor data does not carry is 0.0.
\<close>

theorem C4_scorer_failure_passes_record:
  assumes "ml_request element = Inr ml_data" and "ml_call_failed (post ml_data)"
  shows "DetectAnomaliesWithML post element = Main element
       \<and> fst (SendAlerts env element) = Main element
       \<and> (FormatForBigQuery element = Main row \<longrightarrow>
            getitem row ''temp_anomaly_score'' =
              Inr (case get_sensor_data element ''temp_anomaly_score'' of
                     Inr x \<Rightarrow> x | Inl e \<Rightarrow> JFloat 0)
          \<and> getitem row ''vibration_anomaly_score'' =
              Inr (case get_sensor_data element ''vibration_anomaly_score'' of
                     Inr x \<Rightarrow> x | Inl e \<Rightarrow> JFloat 0))"
  using assms score_stage_passes_on_failure [of element ml_data post]
        alert_stage_passes [of element ml_data env] format_stage_defaults [of element row]
  by blast

lemma parsed_element_request:
  "ml_request parsed_element =
     Inr (JObj [(''device_id'', JStr ''sensor_0001''),
                (''timestamp'', JStr ''2024-01-01T00:00:00''),
                (''temperature'', JFloat 23.5), (''vibration'', JFloat 1.2)])"
  by (simp add: ml_request_def get_sensor_data_def parsed_element_def)

lemma parsed_element_row:
  "FormatForBigQuery parsed_element =
     Main (JObj
        [(''device_id'', JStr ''sensor_0001''), (''timestamp'', JStr ''2024-01-01T00:00:00''),
         (''processed_at'', JStr ''2024-01-01T00:00:01''),
         (''building'', JStr ''Building_A''), (''floor'', JInt 3), (''room'', JStr ''Room_305''),
         (''device_type'', JStr ''industrial_sensor''),
         (''temperature'', JFloat 23.5), (''vibration'', JFloat 1.2),
         (''is_anomaly'', JBool False),
         (''temp_anomaly_score'', JFloat 0), (''vibration_anomaly_score'', JFloat 0),
         (''temp_ma'', JFloat 0), (''vibration_ma'', JFloat 0),
         (''temp_zscore'', JFloat 0), (''vibration_zscore'', JFloat 0)])"
  by (simp add: FormatForBigQuery_def bq_row_def and_then_def get_sensor_data_def
        parsed_element_def)

theorem C4_witness:
  "ml_request parsed_element =
     Inr (JObj [(''device_id'', JStr ''sensor_0001''),
                (''timestamp'', JStr ''2024-01-01T00:00:00''),
                (''temperature'', JFloat 23.5), (''vibration'', JFloat 1.2)])
   \<and> ml_call_failed (Responded 503 (Inl ValueError))
   \<and> DetectAnomaliesWithML (\<lambda>d. Responded 503 (Inl ValueError)) parsed_element
       = Main parsed_element
   \<and> fst (SendAlerts outage_env parsed_element) = Main parsed_element
   \<and> (\<exists>row. FormatForBigQuery parsed_element = Main row
        \<and> getitem row ''temp_anomaly_score'' = Inr (JFloat 0)
        \<and> getitem row ''vibration_anomaly_score'' = Inr (JFloat 0))"
proof -
  have failed: "ml_call_failed ((\<lambda>d. Responded 503 (Inl ValueError))
     (JObj [(''device_id'', JStr ''sensor_0001''),
            (''timestamp'', JStr ''2024-01-01T00:00:00''),
            (''temperature'', JFloat 23.5), (''vibration'', JFloat 1.2)]))"
    by (simp add: ml_call_failed_def)
  have absent: "get_sensor_data parsed_element ''temp_anomaly_score'' = Inl KeyError"
    "get_sensor_data parsed_element ''vibration_anomaly_score'' = Inl KeyError"
    by (simp_all add: get_sensor_data_def parsed_element_def)
  show ?thesis
    using C4_scorer_failure_passes_record
           [where element = parsed_element
              and ml_data = "JObj [(''device_id'', JStr ''sensor_0001''),
                                   (''timestamp'', JStr ''2024-01-01T00:00:00''),
                                   (''temperature'', JFloat 23.5), (''vibration'', JFloat 1.2)]"
              and post = "\<lambda>d. Responded 503 (Inl ValueError)"
              and env = outage_env and row = "JObj
        [(''device_id'', JStr ''sensor_0001''), (''timestamp'', JStr ''2024-01-01T00:00:00''),
         (''processed_at'', JStr ''2024-01-01T00:00:01''),
         (''building'', JStr ''Building_A''), (''floor'', JInt 3), (''room'', JStr ''Room_305''),
         (''device_type'', JStr ''industrial_sensor''),
         (''temperature'', JFloat 23.5), (''vibration'', JFloat 1.2),
         (''is_anomaly'', JBool False),
         (''temp_anomaly_score'', JFloat 0), (''vibration_anomaly_score'', JFloat 0),
         (''temp_ma'', JFloat 0), (''vibration_ma'', JFloat 0),
         (''temp_zscore'', JFloat 0), (''vibration_zscore'', JFloat 0)]"]
          failed parsed_element_request parsed_element_row absent
    by (simp add: ml_call_failed_def)
qed

lemma malformed_message_is_diagnosed:
  "run_pipeline outage_env [''x''] = \<lparr> bq_rows = [], errors = [Raw ''x''], alerts = [] \<rparr>"
  by (simp add: pipeline_defs)

lemma format_rejects_missing_location:
  "FormatForBigQuery no_location_element = Errors no_location_element"
  by (simp add: FormatForBigQuery_def bq_row_def and_then_def no_location_element_def)

text \<open>
  C8 at a message without a location. It parses, is preprocessed, passes the Score and
  Alert stages (both endpoints down) and raises KeyError in Format, which yields it on
  the error tag. The run produces no sink row for it and no diagnostic: the record is in
  neither output.
\<close>

theorem C8_format_error_not_surfaced:
  "run_pipeline outage_env [''m2''] = \<lparr> bq_rows = [], errors = [], alerts = [] \<rparr>"
  by (simp add: pipeline_defs)

end
